theory Spec2Isabelle
  imports Complex_Main
begin

section \<open>The orchestration function \<open>analyze\<close> of \<open>miles/analyze.py\<close>\<close>

text \<open>
  \<open>analyze\<close> receives a transition kernel and six file names. Its body is five
  statements: four calls (\<open>kernel.save_distributions()\<close>,
  \<open>kernel.compute_distributions()\<close>, \<open>save_distributions(distributions, ...)\<close>,
  \<open>kernel.matrices.save(...)\<close>) and \<open>return kernel.matrices.mfpt\<close>.
  The four callees live in the package \<open>miles\<close>; \<open>analyze.py\<close> only
  imports them. They are taken as parameters here: each is a function on the world
  (the kernel object together with the file system) that returns normally or raises,
  and leaves a new world either way.
\<close>

type_synonym path = string

text \<open>The exceptions a callee may raise (the taxonomy of the specification).\<close>

datatype error = DataError | SolverError | UnreachableError | PersistenceError

text \<open>
  The kernel as \<open>analyze\<close> reads it: an object with an attribute \<open>matrices\<close>,
  itself an object with an attribute \<open>mfpt\<close>. Both records are extensible, so a
  kernel may carry any further attributes.
\<close>

record 'm Matrices =
  mfpt :: 'm

record ('m, 'a) TransitionKernel =
  matrices :: "('m, 'a) Matrices_scheme"

text \<open>The world the callees act on: the kernel object and the file system.\<close>

record ('k, 'f) world =
  kernel :: 'k
  filesystem :: 'f

text \<open>
  The interface of the package as \<open>analyze\<close> uses it. A callee maps the world to
  its outcome (\<open>Inl\<close> an exception, \<open>Inr\<close> the returned value) and the world it
  leaves. \<open>compute_distributions\<close> returns the pair that line 51 unpacks.
\<close>

record ('k, 'f, 'd, 'q) miles =
  kernel_save_distributions ::
    "('k, 'f) world \<Rightarrow> (error + unit) \<times> ('k, 'f) world"
  kernel_compute_distributions ::
    "('k, 'f) world \<Rightarrow> (error + 'd \<times> 'q) \<times> ('k, 'f) world"
  save_distributions ::
    "'d \<Rightarrow> path \<Rightarrow> ('k, 'f) world \<Rightarrow> (error + unit) \<times> ('k, 'f) world"
  kernel_matrices_save ::
    "path \<Rightarrow> path \<Rightarrow> path \<Rightarrow> path \<Rightarrow> path \<Rightarrow> ('k, 'f) world
      \<Rightarrow> (error + unit) \<times> ('k, 'f) world"

text \<open>
  The calls \<open>analyze\<close> makes, with their arguments, in the order it makes them.
\<close>

datatype 'd call =
    Kernel_save_distributions
  | Kernel_compute_distributions
  | Save_distributions 'd path
  | Matrices_save path path path path path

record ('k, 'f, 'd) run =
  calls :: "'d call list"
  world :: "('k, 'f) world"

text \<open>One call: the callee acts on the world, and the call is appended to the log.\<close>

definition invoke ::
  "'d call \<Rightarrow> (('k, 'f) world \<Rightarrow> (error + 'r) \<times> ('k, 'f) world)
    \<Rightarrow> ('k, 'f, 'd) run \<Rightarrow> (error + 'r) \<times> ('k, 'f, 'd) run" where
  "invoke c f s =
     (case f (world s) of (r, w) \<Rightarrow> (r, \<lparr>calls = calls s @ [c], world = w\<rparr>))"

text \<open>
  \<open>analyze\<close>, lines 49 to 59. An exception of a callee propagates: the statements
  after it do not run.
\<close>

definition analyze ::
  "(('m, 'a, 'b) TransitionKernel_scheme, 'f, 'd, 'q) miles
    \<Rightarrow> path \<Rightarrow> path \<Rightarrow> path \<Rightarrow> path \<Rightarrow> path \<Rightarrow> path
    \<Rightarrow> (('m, 'a, 'b) TransitionKernel_scheme, 'f) world
    \<Rightarrow> (error + 'm) \<times> (('m, 'a, 'b) TransitionKernel_scheme, 'f, 'd) run" where
  "analyze M stationary_distributions transition_matrix lag_time_matrix
      stationary_flux local_mfpts stationary_probability w =
     (case invoke Kernel_save_distributions (kernel_save_distributions M)
             \<lparr>calls = [], world = w\<rparr> of
        (Inl e, s1) \<Rightarrow> (Inl e, s1)
      | (Inr u1, s1) \<Rightarrow>
     (case invoke Kernel_compute_distributions (kernel_compute_distributions M) s1 of
        (Inl e, s2) \<Rightarrow> (Inl e, s2)
      | (Inr (distributions, q), s2) \<Rightarrow>
     (case invoke (Save_distributions distributions stationary_distributions)
             (save_distributions M distributions stationary_distributions) s2 of
        (Inl e, s3) \<Rightarrow> (Inl e, s3)
      | (Inr u3, s3) \<Rightarrow>
     (case invoke (Matrices_save transition_matrix lag_time_matrix
                     stationary_flux local_mfpts stationary_probability)
             (kernel_matrices_save M transition_matrix lag_time_matrix
                     stationary_flux local_mfpts stationary_probability) s3 of
        (Inl e, s4) \<Rightarrow> (Inl e, s4)
      | (Inr u4, s4) \<Rightarrow> (Inr (mfpt (matrices (kernel (world s4)))), s4)))))"

subsection \<open>Classifying the calls\<close>

text \<open>
  A call is a persistence call when it saves something: the kernel's own
  \<open>save_distributions()\<close>, the module's \<open>save_distributions(distributions, path)\<close>
  and \<open>matrices.save(...)\<close>. The solve is \<open>compute_distributions()\<close>. The
  specification's overview reads the body the same way: save distributions, compute,
  save matrices, return a scalar.
\<close>

fun is_persistence :: "'d call \<Rightarrow> bool" where
  "is_persistence Kernel_save_distributions = True"
| "is_persistence Kernel_compute_distributions = False"
| "is_persistence (Save_distributions d p) = True"
| "is_persistence (Matrices_save p1 p2 p3 p4 p5) = True"

fun is_solve :: "'d call \<Rightarrow> bool" where
  "is_solve Kernel_compute_distributions = True"
| "is_solve c = False"


fun is_matrices_save :: "'d call \<Rightarrow> bool" where
  "is_matrices_save (Matrices_save p1 p2 p3 p4 p5) = True"
| "is_matrices_save c = False"

text \<open>
  No persistence call stands before the solve: the calls made before the first
  \<open>compute_distributions()\<close> are all free of persistence.
\<close>

definition solve_before_persistence :: "'d call list \<Rightarrow> bool" where
  "solve_before_persistence cs =
     list_all (\<lambda>c. \<not> is_persistence c) (takeWhile (\<lambda>c. \<not> is_solve c) cs)"

subsection \<open>Frame conditions on the callees\<close>

text \<open>
  None of the four callees changes the kernel object, whatever its arguments and
  whether it returns or raises.
\<close>

definition kernel_immutable :: "('k, 'f, 'd, 'q) miles \<Rightarrow> bool" where
  "kernel_immutable M \<longleftrightarrow>
     (\<forall>w. kernel (snd (kernel_save_distributions M w)) = kernel w) \<and>
     (\<forall>w. kernel (snd (kernel_compute_distributions M w)) = kernel w) \<and>
     (\<forall>d p w. kernel (snd (save_distributions M d p w)) = kernel w) \<and>
     (\<forall>p1 p2 p3 p4 p5 w. kernel (snd (kernel_matrices_save M p1 p2 p3 p4 p5 w)) = kernel w)"

text \<open>The two callees that receive file names do not change the kernel object.\<close>

definition saves_keep_kernel :: "('k, 'f, 'd, 'q) miles \<Rightarrow> bool" where
  "saves_keep_kernel M \<longleftrightarrow>
     (\<forall>d p w. kernel (snd (save_distributions M d p w)) = kernel w) \<and>
     (\<forall>p1 p2 p3 p4 p5 w. kernel (snd (kernel_matrices_save M p1 p2 p3 p4 p5 w)) = kernel w)"

subsection \<open>A concrete package\<close>

text \<open>
  An instance of the interface on which the theorems below are run: the file system
  is a map from file names to contents, every save writes its files, and the kernel
  holds the scalar 5. In \<open>failing_miles\<close> the solve raises \<open>SolverError\<close>.
  Three further packages raise in one of the other calls, and in \<open>storing_miles\<close>
  the solve stores its scalar in the kernel's \<open>matrices\<close> bundle.
\<close>

definition write_file ::
  "path \<Rightarrow> 'c \<Rightarrow> ('k, path \<rightharpoonup> 'c) world \<Rightarrow> ('k, path \<rightharpoonup> 'c) world" where
  "write_file p c w = w\<lparr>filesystem := (filesystem w)(p \<mapsto> c)\<rparr>"

definition example_kernel :: "(real, unit, unit) TransitionKernel_scheme" where
  "example_kernel = \<lparr>matrices = \<lparr>mfpt = 5\<rparr>\<rparr>"

definition example_world ::
  "((real, unit, unit) TransitionKernel_scheme, path \<rightharpoonup> string) world" where
  "example_world = \<lparr>kernel = example_kernel, filesystem = Map.empty\<rparr>"

definition example_miles ::
  "((real, unit, unit) TransitionKernel_scheme, path \<rightharpoonup> string, real list, real list) miles" where
  "example_miles =
     \<lparr>kernel_save_distributions =
        (\<lambda>w. (Inr (), write_file ''distributions'' ''empirical'' w)),
      kernel_compute_distributions =
        (\<lambda>w. (Inr ([1/3, 1/3, 1/3], [2, 3, 0]), w)),
      save_distributions =
        (\<lambda>d p w. (Inr (), write_file p ''distributions'' w)),
      kernel_matrices_save =
        (\<lambda>p1 p2 p3 p4 p5 w. (Inr (),
           write_file p5 ''pi'' (write_file p4 ''m'' (write_file p3 ''flux''
             (write_file p2 ''tau'' (write_file p1 ''P'' w))))))\<rparr>"

definition failing_miles ::
  "((real, unit, unit) TransitionKernel_scheme, path \<rightharpoonup> string, real list, real list) miles" where
  "failing_miles =
     example_miles\<lparr>kernel_compute_distributions := (\<lambda>w. (Inl SolverError, w))\<rparr>"

definition fail_first_miles ::
  "((real, unit, unit) TransitionKernel_scheme, path \<rightharpoonup> string, real list, real list) miles" where
  "fail_first_miles =
     example_miles\<lparr>kernel_save_distributions := (\<lambda>w. (Inl DataError, w))\<rparr>"

definition fail_save_miles ::
  "((real, unit, unit) TransitionKernel_scheme, path \<rightharpoonup> string, real list, real list) miles" where
  "fail_save_miles =
     example_miles\<lparr>save_distributions := (\<lambda>d p w. (Inl PersistenceError, w))\<rparr>"

definition fail_matrices_miles ::
  "((real, unit, unit) TransitionKernel_scheme, path \<rightharpoonup> string, real list, real list) miles" where
  "fail_matrices_miles =
     example_miles\<lparr>kernel_matrices_save :=
        (\<lambda>p1 p2 p3 p4 p5 w. (Inl PersistenceError, write_file p1 ''P'' w))\<rparr>"

definition storing_miles ::
  "((real, unit, unit) TransitionKernel_scheme, path \<rightharpoonup> string, real list, real list) miles" where
  "storing_miles =
     example_miles\<lparr>kernel_compute_distributions :=
        (\<lambda>w. (Inr ([1/3, 1/3, 1/3], [2, 3, 0]),
              w\<lparr>kernel := (kernel w)\<lparr>matrices := \<lparr>mfpt = 7\<rparr>\<rparr>\<rparr>))\<rparr>"

section \<open>The MFPT engine of the specification\<close>

text \<open>
  The kernel class and its solvers are part of the package \<open>miles\<close> but not of
  \<open>analyze.py\<close>. The definitions of this section follow the specification's own
  formulas, over the real numbers; matrices are lists of rows, milestones are indices.
  An entry of a local MFPT vector is a number, or the marker \<open>None\<close> of a milestone
  whose MFPT is undefined.
\<close>

type_synonym vec = "real list"
type_synonym matrix = "real list list"
type_synonym mfpts = "real option list"

text \<open>
  Modelled from the spec: the transitions of a first passage (sections 3 and 4.3). A
  transition is possible when its probability is positive, and the passage ends at
  the product set, so no transition leaves a product milestone.
\<close>

definition steps :: "matrix \<Rightarrow> nat set \<Rightarrow> (nat \<times> nat) set" where
  "steps P product =
     {(a, b). a < length P \<and> b < length P \<and> a \<notin> product \<and> 0 < P ! a ! b}"

text \<open>
  Modelled from the spec: milestone \<open>i\<close> has a finite path to the product set
  (sections 4.3 and 8): a chain of possible transitions leads from \<open>i\<close> to a product
  milestone.
\<close>

definition reaches :: "matrix \<Rightarrow> nat set \<Rightarrow> nat \<Rightarrow> bool" where
  "reaches P product i \<longleftrightarrow> (\<exists>j\<in>product. (i, j) \<in> (steps P product)\<^sup>*)"

text \<open>
  Modelled from the spec: the milestones whose MFPT is a number. Section 4.3 calls the
  MFPT undefined or infinite where a trajectory is absorbed into a different recurrent
  class before it reaches a product milestone. Milestone \<open>i\<close> is free of that when it
  has a path to the product set and so has every milestone a trajectory from \<open>i\<close> can
  get to.
\<close>

definition certain :: "matrix \<Rightarrow> nat set \<Rightarrow> nat \<Rightarrow> bool" where
  "certain P product i \<longleftrightarrow>
     reaches P product i \<and> (\<forall>j. (i, j) \<in> (steps P product)\<^sup>* \<longrightarrow> reaches P product j)"

text \<open>
  Modelled from the spec: the right-hand side of the first-step recursion of the
  operation \<open>local_mfpts\<close> (section 4.3), whose code is missing:
  \<open>m[i] = \<Sum>j. P[i][j] * (\<tau>[i][j] + m[j])\<close>. An impossible transition contributes
  nothing, whatever stands at \<open>m[j]\<close>.
\<close>

definition first_step :: "matrix \<Rightarrow> matrix \<Rightarrow> mfpts \<Rightarrow> nat \<Rightarrow> real" where
  "first_step P \<tau> m i =
     (\<Sum>j<length P. if P ! i ! j = 0 then 0 else P ! i ! j * (\<tau> ! i ! j + the (m ! j)))"

text \<open>
  Modelled from the spec: the result of the missing operation
  \<open>local_mfpts(P, \<tau>, product_set)\<close> (sections 4.3, 7 and 8), one entry for each
  milestone: 0 on the product set; the marker on a milestone that may miss the product
  set, in particular on every milestone with no path to it; and on every other
  milestone the number that solves the first-step recursion. A marker at one milestone
  leaves the entries of the other milestones in place.
\<close>

definition is_local_mfpts :: "matrix \<Rightarrow> matrix \<Rightarrow> nat set \<Rightarrow> mfpts \<Rightarrow> bool" where
  "is_local_mfpts P \<tau> product m \<longleftrightarrow>
     length m = length P \<and>
     (\<forall>i<length P. m ! i =
        (if i \<in> product then Some 0
         else if certain P product i then Some (first_step P \<tau> m i)
         else None))"

text \<open>
  Modelled from the spec: the missing operation \<open>global_mfpt(m, reactant_set, \<pi>)\<close>
  (section 4.3), the weighted average
  \<open>(\<Sum>i\<in>reactant. \<pi>[i] * m[i]) / (\<Sum>i\<in>reactant. \<pi>[i])\<close>, taken over the reactant
  milestones whose local MFPT is a number: by section 7 a reactant with the marker
  does not abort the analysis, since other reactant milestones may still be valid.
  Where the weight of these milestones is 0 (in particular where every reactant has
  the marker) the quotient is undefined, and section 7 forbids a placeholder for an
  undefined result: the value is \<open>None\<close> there.
\<close>

definition global_mfpt :: "mfpts \<Rightarrow> nat set \<Rightarrow> vec \<Rightarrow> real option" where
  "global_mfpt m reactant \<pi> =
     (let valid = {i \<in> reactant. m ! i \<noteq> None};
          weight = (\<Sum>i\<in>valid. \<pi> ! i)
      in if weight = 0 then None
         else Some ((\<Sum>i\<in>valid. \<pi> ! i * the (m ! i)) / weight))"




text \<open>
  Modelled from the spec: the invariants of the TransitionKernel (section 3): \<open>P\<close> is
  square, and on every row outside the product set \<open>P[i][j] \<ge> 0\<close> and the row sums
  to 1. The rows of the product milestones are left free: section 3 lets an absorbing
  row sum to 0, and the chain of section 8 gives it a self-transition.
\<close>

definition valid_kernel :: "matrix \<Rightarrow> nat set \<Rightarrow> bool" where
  "valid_kernel P product \<longleftrightarrow>
     (\<forall>i<length P. length (P ! i) = length P \<and>
        (i \<notin> product \<longrightarrow>
           (\<forall>j<length P. 0 \<le> P ! i ! j) \<and> (\<Sum>j<length P. P ! i ! j) = 1))"


text \<open>
  The unknowns of the linear system of section 4.3: the milestones outside the product
  set whose MFPT is a number; the number a vector holds there (0 elsewhere); and the
  mean time of the first transition out of a milestone.
\<close>

definition inner :: "matrix \<Rightarrow> nat set \<Rightarrow> nat set" where
  "inner P product = {i. i < length P \<and> i \<notin> product \<and> certain P product i}"

definition numeric :: "matrix \<Rightarrow> nat set \<Rightarrow> mfpts \<Rightarrow> nat \<Rightarrow> real" where
  "numeric P product m j = (if j \<in> inner P product then the (m ! j) else 0)"

definition mean_lag :: "matrix \<Rightarrow> matrix \<Rightarrow> nat \<Rightarrow> real" where
  "mean_lag P \<tau> i = (\<Sum>j<length P. P ! i ! j * \<tau> ! i ! j)"

text \<open>
  The 3-milestone chain of section 8 (milestone 0 the reactant, milestone 2 the
  product and absorbing) with its lag times; lag times that are all 0; and a kernel
  whose milestone 0 goes to the product milestone 2 or to the trap 1 with probability
  \<open>1/2\<close> each, with lag times that are all 1.
\<close>

definition chain_P :: matrix where
  "chain_P = [[0, 1, 0], [0, 0, 1], [0, 0, 1]]"

definition chain_tau :: matrix where
  "chain_tau = [[0, 2, 0], [0, 0, 3], [0, 0, 0]]"




section \<open>Properties of \<open>analyze\<close>\<close>

subsection \<open>The runs of \<open>analyze\<close>\<close>

text \<open>
  Every run of \<open>analyze\<close> is one of five: one of the four callees raises, in the
  order of the calls, or all four return and the scalar is read from the kernel.
\<close>

lemma analyze_cases:
  "analyze M sd tm ltm sf lm sp w =
    (case kernel_save_distributions M w of
       (Inl e, w1) \<Rightarrow> (Inl e, \<lparr>calls = [Kernel_save_distributions], world = w1\<rparr>)
     | (Inr u1, w1) \<Rightarrow>
    (case kernel_compute_distributions M w1 of
       (Inl e, w2) \<Rightarrow>
         (Inl e, \<lparr>calls = [Kernel_save_distributions, Kernel_compute_distributions],
                  world = w2\<rparr>)
     | (Inr (d, q), w2) \<Rightarrow>
    (case save_distributions M d sd w2 of
       (Inl e, w3) \<Rightarrow>
         (Inl e, \<lparr>calls = [Kernel_save_distributions, Kernel_compute_distributions,
                           Save_distributions d sd], world = w3\<rparr>)
     | (Inr u3, w3) \<Rightarrow>
    (case kernel_matrices_save M tm ltm sf lm sp w3 of
       (Inl e, w4) \<Rightarrow>
         (Inl e, \<lparr>calls = [Kernel_save_distributions, Kernel_compute_distributions,
                           Save_distributions d sd, Matrices_save tm ltm sf lm sp],
                  world = w4\<rparr>)
     | (Inr u4, w4) \<Rightarrow>
         (Inr (mfpt (matrices (kernel w4))),
          \<lparr>calls = [Kernel_save_distributions, Kernel_compute_distributions,
                    Save_distributions d sd, Matrices_save tm ltm sf lm sp],
           world = w4\<rparr>)))))"
  by (simp add: analyze_def invoke_def split: prod.splits sum.splits)

lemma example_run:
  "analyze example_miles sd tm ltm sf lm sp example_world =
    (Inr 5, \<lparr>calls = [Kernel_save_distributions, Kernel_compute_distributions,
                     Save_distributions [1/3, 1/3, 1/3] sd, Matrices_save tm ltm sf lm sp],
             world = write_file sp ''pi'' (write_file lm ''m'' (write_file sf ''flux''
               (write_file ltm ''tau'' (write_file tm ''P''
                 (write_file sd ''distributions''
                   (write_file ''distributions'' ''empirical'' example_world))))))\<rparr>)"
  by (simp add: analyze_cases example_miles_def example_world_def example_kernel_def
      write_file_def)

lemma failing_run:
  "analyze failing_miles sd tm ltm sf lm sp example_world =
    (Inl SolverError,
     \<lparr>calls = [Kernel_save_distributions, Kernel_compute_distributions],
      world = write_file ''distributions'' ''empirical'' example_world\<rparr>)"
  by (simp add: analyze_cases failing_miles_def example_miles_def)

lemma example_kernel_save:
  "kernel_save_distributions example_miles example_world =
     (Inr (), write_file ''distributions'' ''empirical'' example_world)"
  by (simp add: example_miles_def)

lemma example_compute:
  "kernel_compute_distributions example_miles w = (Inr ([1/3, 1/3, 1/3], [2, 3, 0]), w)"
  by (simp add: example_miles_def)

lemma failing_kernel_save:
  "kernel_save_distributions failing_miles example_world =
     (Inr (), write_file ''distributions'' ''empirical'' example_world)"
  by (simp add: failing_miles_def example_miles_def)

lemma failing_compute:
  "kernel_compute_distributions failing_miles w = (Inl SolverError, w)"
  by (simp add: failing_miles_def)

lemma example_miles_immutable: "kernel_immutable example_miles"
  by (simp add: kernel_immutable_def example_miles_def write_file_def)

lemma example_saves_keep_kernel: "saves_keep_kernel example_miles"
  by (simp add: saves_keep_kernel_def example_miles_def write_file_def)

lemma kernel_after_analyze:
  assumes imm: "kernel_immutable M"
  shows "kernel (world (snd (analyze M sd tm ltm sf lm sp w))) = kernel w"
proof -
  obtain r1 w1 where c1: "kernel_save_distributions M w = (r1, w1)" by force
  obtain r2 w2 where c2: "kernel_compute_distributions M w1 = (r2, w2)" by force
  have k1: "kernel w1 = kernel w"
    using imm c1 unfolding kernel_immutable_def by (metis snd_conv)
  have k2: "kernel w2 = kernel w"
    using imm c2 k1 unfolding kernel_immutable_def by (metis snd_conv)
  have k3: "kernel (snd (save_distributions M d sd w2)) = kernel w" for d
    using imm k2 unfolding kernel_immutable_def by simp
  have k4: "kernel (snd (kernel_matrices_save M tm ltm sf lm sp w3)) = kernel w3" for w3
    using imm unfolding kernel_immutable_def by simp
  show ?thesis
    using c1 c2 k1 k2 k3 k4
    by (auto simp add: analyze_cases split: prod.splits sum.splits
        dest!: arg_cong [where f = snd])
qed

lemma analyze_result_read:
  "fst (analyze M sd tm ltm sf lm sp w) = Inr r \<Longrightarrow>
   r = mfpt (matrices (kernel (world (snd (analyze M sd tm ltm sf lm sp w)))))"
  by (auto simp add: analyze_cases split: prod.splits sum.splits)

lemma example_returns:
  "fst (analyze example_miles sd tm ltm sf lm sp w) = Inr (mfpt (matrices (kernel w)))"
  by (simp add: analyze_cases example_miles_def write_file_def)

lemma fail_first_run:
  "analyze fail_first_miles sd tm ltm sf lm sp w =
     (Inl DataError, \<lparr>calls = [Kernel_save_distributions], world = w\<rparr>)"
  by (simp add: analyze_cases fail_first_miles_def)

lemma fail_save_run:
  "analyze fail_save_miles sd tm ltm sf lm sp example_world =
     (Inl PersistenceError,
      \<lparr>calls = [Kernel_save_distributions, Kernel_compute_distributions,
                Save_distributions [1/3, 1/3, 1/3] sd],
       world = write_file ''distributions'' ''empirical'' example_world\<rparr>)"
  by (simp add: analyze_cases fail_save_miles_def example_miles_def)

lemma fail_matrices_run:
  "analyze fail_matrices_miles sd tm ltm sf lm sp example_world =
     (Inl PersistenceError,
      \<lparr>calls = [Kernel_save_distributions, Kernel_compute_distributions,
                Save_distributions [1/3, 1/3, 1/3] sd, Matrices_save tm ltm sf lm sp],
       world = write_file tm ''P'' (write_file sd ''distributions''
                 (write_file ''distributions'' ''empirical'' example_world))\<rparr>)"
  by (simp add: analyze_cases fail_matrices_miles_def example_miles_def)

lemma storing_run:
  "analyze storing_miles sd tm ltm sf lm sp example_world =
    (Inr 7, \<lparr>calls = [Kernel_save_distributions, Kernel_compute_distributions,
                     Save_distributions [1/3, 1/3, 1/3] sd, Matrices_save tm ltm sf lm sp],
             world = write_file sp ''pi'' (write_file lm ''m'' (write_file sf ''flux''
               (write_file ltm ''tau'' (write_file tm ''P''
                 (write_file sd ''distributions''
                   ((write_file ''distributions'' ''empirical'' example_world)
                      \<lparr>kernel := \<lparr>matrices = \<lparr>mfpt = 7\<rparr>\<rparr>\<rparr>))))))\<rparr>)"
  by (simp add: analyze_cases storing_miles_def example_miles_def example_world_def
      example_kernel_def write_file_def)

lemma fail_first_kernel_save:
  "kernel_save_distributions fail_first_miles w = (Inl DataError, w)"
  by (simp add: fail_first_miles_def)

lemma fail_save_kernel_save:
  "kernel_save_distributions fail_save_miles example_world =
     (Inr (), write_file ''distributions'' ''empirical'' example_world)"
  by (simp add: fail_save_miles_def example_miles_def)

lemma fail_save_compute:
  "kernel_compute_distributions fail_save_miles w = (Inr ([1/3, 1/3, 1/3], [2, 3, 0]), w)"
  by (simp add: fail_save_miles_def example_miles_def)

lemma fail_save_save:
  "save_distributions fail_save_miles d p w = (Inl PersistenceError, w)"
  by (simp add: fail_save_miles_def)

lemma fail_matrices_kernel_save:
  "kernel_save_distributions fail_matrices_miles example_world =
     (Inr (), write_file ''distributions'' ''empirical'' example_world)"
  by (simp add: fail_matrices_miles_def example_miles_def)

lemma fail_matrices_compute:
  "kernel_compute_distributions fail_matrices_miles w =
     (Inr ([1/3, 1/3, 1/3], [2, 3, 0]), w)"
  by (simp add: fail_matrices_miles_def example_miles_def)

lemma fail_matrices_save:
  "save_distributions fail_matrices_miles d p w = (Inr (), write_file p ''distributions'' w)"
  by (simp add: fail_matrices_miles_def example_miles_def)

lemma fail_matrices_matrices:
  "kernel_matrices_save fail_matrices_miles p1 p2 p3 p4 p5 w =
     (Inl PersistenceError, write_file p1 ''P'' w)"
  by (simp add: fail_matrices_miles_def)

lemma example_save:
  "save_distributions example_miles d p w = (Inr (), write_file p ''distributions'' w)"
  by (simp add: example_miles_def)

lemma example_matrices:
  "kernel_matrices_save example_miles p1 p2 p3 p4 p5 w =
     (Inr (), write_file p5 ''pi'' (write_file p4 ''m'' (write_file p3 ''flux''
        (write_file p2 ''tau'' (write_file p1 ''P'' w)))))"
  by (simp add: example_miles_def)

lemma storing_kernel_save:
  "kernel_save_distributions storing_miles example_world =
     (Inr (), write_file ''distributions'' ''empirical'' example_world)"
  by (simp add: storing_miles_def example_miles_def)

lemma storing_compute:
  "kernel_compute_distributions storing_miles w =
     (Inr ([1/3, 1/3, 1/3], [2, 3, 0]), w\<lparr>kernel := (kernel w)\<lparr>matrices := \<lparr>mfpt = 7\<rparr>\<rparr>\<rparr>)"
  by (simp add: storing_miles_def)

lemma storing_save:
  "save_distributions storing_miles d p w = (Inr (), write_file p ''distributions'' w)"
  by (simp add: storing_miles_def example_miles_def)

lemma storing_matrices:
  "kernel (snd (kernel_matrices_save storing_miles p1 p2 p3 p4 p5 w)) = kernel w"
  by (simp add: storing_miles_def example_miles_def write_file_def)

subsection \<open>The returned value\<close>

text \<open>
  Claim C1. \<open>analyze\<close> returns the scalar global mean first-passage time of the
  analysed kernel: the value of the \<open>mfpt\<close> field of the kernel's \<open>matrices\<close>
  bundle, and nothing else. When the four calls return, \<open>analyze\<close> returns that
  field, read from the kernel as the last call left it; and whatever \<open>analyze\<close>
  returns is that field of the kernel in the final world.
\<close>

theorem analyze_returns_mfpt:
  "(kernel_save_distributions M w = (Inr u1, w1) \<longrightarrow>
    kernel_compute_distributions M w1 = (Inr (d, q), w2) \<longrightarrow>
    save_distributions M d sd w2 = (Inr u3, w3) \<longrightarrow>
    kernel_matrices_save M tm ltm sf lm sp w3 = (Inr u4, w4) \<longrightarrow>
      fst (analyze M sd tm ltm sf lm sp w) = Inr (mfpt (matrices (kernel w4))))
   \<and> (fst (analyze M sd tm ltm sf lm sp w) = Inr r \<longrightarrow>
      r = mfpt (matrices (kernel (world (snd (analyze M sd tm ltm sf lm sp w))))))"
proof (intro conjI impI)
  assume "kernel_save_distributions M w = (Inr u1, w1)"
    and "kernel_compute_distributions M w1 = (Inr (d, q), w2)"
    and "save_distributions M d sd w2 = (Inr u3, w3)"
    and "kernel_matrices_save M tm ltm sf lm sp w3 = (Inr u4, w4)"
  then show "fst (analyze M sd tm ltm sf lm sp w) = Inr (mfpt (matrices (kernel w4)))"
    by (simp add: analyze_cases)
next
  assume "fst (analyze M sd tm ltm sf lm sp w) = Inr r"
  then show "r = mfpt (matrices (kernel (world (snd (analyze M sd tm ltm sf lm sp w)))))"
    by (auto simp add: analyze_cases split: prod.splits sum.splits)
qed

theorem analyze_returns_mfpt_witness:
  "fst (analyze example_miles ''pi_q'' ''P'' ''tau'' ''flux'' ''m'' ''pi'' example_world)
     = Inr 5"
  using analyze_returns_mfpt [of example_miles example_world "()"
      "write_file ''distributions'' ''empirical'' example_world"
      "[1/3, 1/3, 1/3]" "[2, 3, 0]"
      "write_file ''distributions'' ''empirical'' example_world" "''pi_q''" "()"
      "write_file ''pi_q'' ''distributions''
         (write_file ''distributions'' ''empirical'' example_world)"
      "''P''" "''tau''" "''flux''" "''m''" "''pi''" "()"
      "write_file ''pi'' ''pi'' (write_file ''m'' ''m'' (write_file ''flux'' ''flux''
         (write_file ''tau'' ''tau'' (write_file ''P'' ''P''
           (write_file ''pi_q'' ''distributions''
             (write_file ''distributions'' ''empirical'' example_world))))))"]
  by (simp add: example_miles_def example_world_def example_kernel_def write_file_def)

subsection \<open>The order of the calls\<close>

text \<open>
  Claim C2, as stated: in every execution the solve completes before any persistence
  write. It fails: in the run of the concrete package, which returns 5, the first call
  is the kernel's \<open>save_distributions()\<close> of line 49, a persistence call, and the
  solve of line 51 comes after it.
\<close>

theorem analyze_order_counterexample:
  "fst (analyze example_miles ''pi_q'' ''P'' ''tau'' ''flux'' ''m'' ''pi'' example_world)
     = Inr 5 \<and>
   hd (calls (snd (analyze example_miles ''pi_q'' ''P'' ''tau'' ''flux'' ''m'' ''pi''
         example_world))) = Kernel_save_distributions \<and>
   \<not> solve_before_persistence
       (calls (snd (analyze example_miles ''pi_q'' ''P'' ''tau'' ''flux'' ''m'' ''pi''
         example_world)))"
  by (simp add: example_run solve_before_persistence_def)

text \<open>
  Claim C2, amended. Every execution of \<open>analyze\<close> applies the four callees in the
  order of the source, each to the world the one before it left: the kernel's
  \<open>save_distributions()\<close>, the solve \<open>compute_distributions()\<close>,
  \<open>save_distributions\<close> of the computed distributions to the
  \<open>stationary_distributions\<close> path, and \<open>matrices.save\<close> of the five paths. An
  exception of one of them ends the execution with the calls made so far, and the
  scalar is read from the kernel once all four have returned. So in every execution
  the solve completes before the two writes to the caller's paths, and every call
  completes before the scalar is returned; the kernel's own \<open>save_distributions()\<close>
  precedes the solve.
\<close>

theorem analyze_call_order:
  "(kernel_save_distributions M w = (Inl e, w1) \<longrightarrow>
      analyze M sd tm ltm sf lm sp w =
        (Inl e, \<lparr>calls = [Kernel_save_distributions], world = w1\<rparr>)) \<and>
   (kernel_save_distributions M w = (Inr u1, w1) \<longrightarrow>
    kernel_compute_distributions M w1 = (Inl e, w2) \<longrightarrow>
      analyze M sd tm ltm sf lm sp w =
        (Inl e, \<lparr>calls = [Kernel_save_distributions, Kernel_compute_distributions],
                 world = w2\<rparr>)) \<and>
   (kernel_save_distributions M w = (Inr u1, w1) \<longrightarrow>
    kernel_compute_distributions M w1 = (Inr (d, q), w2) \<longrightarrow>
    save_distributions M d sd w2 = (Inl e, w3) \<longrightarrow>
      analyze M sd tm ltm sf lm sp w =
        (Inl e, \<lparr>calls = [Kernel_save_distributions, Kernel_compute_distributions,
                          Save_distributions d sd], world = w3\<rparr>)) \<and>
   (kernel_save_distributions M w = (Inr u1, w1) \<longrightarrow>
    kernel_compute_distributions M w1 = (Inr (d, q), w2) \<longrightarrow>
    save_distributions M d sd w2 = (Inr u3, w3) \<longrightarrow>
    kernel_matrices_save M tm ltm sf lm sp w3 = (Inl e, w4) \<longrightarrow>
      analyze M sd tm ltm sf lm sp w =
        (Inl e, \<lparr>calls = [Kernel_save_distributions, Kernel_compute_distributions,
                          Save_distributions d sd, Matrices_save tm ltm sf lm sp],
                 world = w4\<rparr>)) \<and>
   (kernel_save_distributions M w = (Inr u1, w1) \<longrightarrow>
    kernel_compute_distributions M w1 = (Inr (d, q), w2) \<longrightarrow>
    save_distributions M d sd w2 = (Inr u3, w3) \<longrightarrow>
    kernel_matrices_save M tm ltm sf lm sp w3 = (Inr u4, w4) \<longrightarrow>
      analyze M sd tm ltm sf lm sp w =
        (Inr (mfpt (matrices (kernel w4))),
         \<lparr>calls = [Kernel_save_distributions, Kernel_compute_distributions,
                   Save_distributions d sd, Matrices_save tm ltm sf lm sp],
          world = w4\<rparr>))"
  by (simp add: analyze_cases)

theorem analyze_call_order_witness:
  "analyze fail_first_miles ''pi_q'' ''P'' ''tau'' ''flux'' ''m'' ''pi'' example_world =
     (Inl DataError, \<lparr>calls = [Kernel_save_distributions], world = example_world\<rparr>) \<and>
   analyze failing_miles ''pi_q'' ''P'' ''tau'' ''flux'' ''m'' ''pi'' example_world =
     (Inl SolverError,
      \<lparr>calls = [Kernel_save_distributions, Kernel_compute_distributions],
       world = write_file ''distributions'' ''empirical'' example_world\<rparr>) \<and>
   analyze fail_save_miles ''pi_q'' ''P'' ''tau'' ''flux'' ''m'' ''pi'' example_world =
     (Inl PersistenceError,
      \<lparr>calls = [Kernel_save_distributions, Kernel_compute_distributions,
                Save_distributions [1/3, 1/3, 1/3] ''pi_q''],
       world = write_file ''distributions'' ''empirical'' example_world\<rparr>) \<and>
   analyze fail_matrices_miles ''pi_q'' ''P'' ''tau'' ''flux'' ''m'' ''pi'' example_world =
     (Inl PersistenceError,
      \<lparr>calls = [Kernel_save_distributions, Kernel_compute_distributions,
                Save_distributions [1/3, 1/3, 1/3] ''pi_q'',
                Matrices_save ''P'' ''tau'' ''flux'' ''m'' ''pi''],
       world = write_file ''P'' ''P'' (write_file ''pi_q'' ''distributions''
                 (write_file ''distributions'' ''empirical'' example_world))\<rparr>) \<and>
   analyze example_miles ''pi_q'' ''P'' ''tau'' ''flux'' ''m'' ''pi'' example_world =
     (Inr 5,
      \<lparr>calls = [Kernel_save_distributions, Kernel_compute_distributions,
                Save_distributions [1/3, 1/3, 1/3] ''pi_q'',
                Matrices_save ''P'' ''tau'' ''flux'' ''m'' ''pi''],
       world = write_file ''pi'' ''pi'' (write_file ''m'' ''m'' (write_file ''flux'' ''flux''
                 (write_file ''tau'' ''tau'' (write_file ''P'' ''P''
                   (write_file ''pi_q'' ''distributions''
                     (write_file ''distributions'' ''empirical'' example_world))))))\<rparr>)"
proof (intro conjI)
  let ?w1 = "write_file ''distributions'' ''empirical'' example_world"
  let ?w3 = "write_file ''pi_q'' ''distributions'' ?w1"
  let ?w4 = "write_file ''pi'' ''pi'' (write_file ''m'' ''m'' (write_file ''flux'' ''flux''
                 (write_file ''tau'' ''tau'' (write_file ''P'' ''P'' ?w3))))"
  show "analyze fail_first_miles ''pi_q'' ''P'' ''tau'' ''flux'' ''m'' ''pi'' example_world =
     (Inl DataError, \<lparr>calls = [Kernel_save_distributions], world = example_world\<rparr>)"
    using analyze_call_order [of fail_first_miles example_world DataError example_world]
      fail_first_kernel_save [of example_world]
    by blast
  show "analyze failing_miles ''pi_q'' ''P'' ''tau'' ''flux'' ''m'' ''pi'' example_world =
     (Inl SolverError,
      \<lparr>calls = [Kernel_save_distributions, Kernel_compute_distributions], world = ?w1\<rparr>)"
    using analyze_call_order [of failing_miles example_world SolverError ?w1 _ _ _ _ _ _ "()" ?w1]
      failing_kernel_save failing_compute [of ?w1]
    by blast
  show "analyze fail_save_miles ''pi_q'' ''P'' ''tau'' ''flux'' ''m'' ''pi'' example_world =
     (Inl PersistenceError,
      \<lparr>calls = [Kernel_save_distributions, Kernel_compute_distributions,
                Save_distributions [1/3, 1/3, 1/3] ''pi_q''], world = ?w1\<rparr>)"
    using analyze_call_order [of fail_save_miles example_world PersistenceError ?w1
        "''pi_q''" _ _ _ _ _ "()" ?w1 "[1/3, 1/3, 1/3]" "[2, 3, 0]" ?w1]
      fail_save_kernel_save fail_save_compute [of ?w1]
      fail_save_save [of "[1/3, 1/3, 1/3]" "''pi_q''" ?w1]
    by blast
  show "analyze fail_matrices_miles ''pi_q'' ''P'' ''tau'' ''flux'' ''m'' ''pi'' example_world =
     (Inl PersistenceError,
      \<lparr>calls = [Kernel_save_distributions, Kernel_compute_distributions,
                Save_distributions [1/3, 1/3, 1/3] ''pi_q'',
                Matrices_save ''P'' ''tau'' ''flux'' ''m'' ''pi''],
       world = write_file ''P'' ''P'' ?w3\<rparr>)"
    using analyze_call_order [of fail_matrices_miles example_world PersistenceError ?w1
        "''pi_q''" "''P''" "''tau''" "''flux''" "''m''" "''pi''" "()" ?w1
        "[1/3, 1/3, 1/3]" "[2, 3, 0]" ?w3 "()" "write_file ''P'' ''P'' ?w3"]
      fail_matrices_kernel_save fail_matrices_compute [of ?w1]
      fail_matrices_save [of "[1/3, 1/3, 1/3]" "''pi_q''" ?w1]
      fail_matrices_matrices [of "''P''" "''tau''" "''flux''" "''m''" "''pi''" ?w3]
    by blast
  have five: "mfpt (matrices (kernel ?w4)) = 5"
    by (simp add: write_file_def example_world_def example_kernel_def)
  show "analyze example_miles ''pi_q'' ''P'' ''tau'' ''flux'' ''m'' ''pi'' example_world =
     (Inr 5,
      \<lparr>calls = [Kernel_save_distributions, Kernel_compute_distributions,
                Save_distributions [1/3, 1/3, 1/3] ''pi_q'',
                Matrices_save ''P'' ''tau'' ''flux'' ''m'' ''pi''],
       world = ?w4\<rparr>)"
    using analyze_call_order [of example_miles example_world _ ?w1
        "''pi_q''" "''P''" "''tau''" "''flux''" "''m''" "''pi''" "()" ?w1
        "[1/3, 1/3, 1/3]" "[2, 3, 0]" ?w3 "()" ?w4 "()"]
      example_kernel_save example_compute [of ?w1]
      example_save [of "[1/3, 1/3, 1/3]" "''pi_q''" ?w1]
      example_matrices [of "''P''" "''tau''" "''flux''" "''m''" "''pi''" ?w3] five
    by simp
qed

subsection \<open>A failing solve\<close>

text \<open>
  Claim C3, as stated: if the solve fails, no output file has been written and the
  file system is unchanged. It fails: the kernel's \<open>save_distributions()\<close> of line
  49 has already run when the solve raises. In the concrete package it writes a file,
  the solve raises \<open>SolverError\<close>, and the file system \<open>analyze\<close> leaves differs from
  the one it started with.
\<close>

theorem analyze_abort_counterexample:
  "fst (analyze failing_miles ''pi_q'' ''P'' ''tau'' ''flux'' ''m'' ''pi'' example_world)
     = Inl SolverError \<and>
   filesystem (world (snd (analyze failing_miles ''pi_q'' ''P'' ''tau'' ''flux'' ''m''
       ''pi'' example_world))) \<noteq> filesystem example_world"
proof -
  have "filesystem (write_file ''distributions'' ''empirical'' example_world)
            ''distributions''
          \<noteq> filesystem example_world ''distributions''"
    by (simp add: write_file_def example_world_def)
  then have "filesystem (write_file ''distributions'' ''empirical'' example_world)
          \<noteq> filesystem example_world"
    by metis
  then show ?thesis by (simp add: failing_run)
qed

text \<open>
  Claim C3, amended. If the kernel's \<open>save_distributions()\<close> returns and the solve
  then raises an error (a \<open>DataError\<close> or a \<open>SolverError\<close>, or any other),
  \<open>analyze\<close> aborts with that error having made these two calls only: neither
  \<open>save_distributions(distributions, path)\<close> nor \<open>matrices.save\<close> has been invoked,
  and the world, its file system included, is as those two calls left it.
\<close>

theorem analyze_aborts_on_solve_failure:
  "kernel_save_distributions M w = (Inr u, w1) \<Longrightarrow>
   kernel_compute_distributions M w1 = (Inl e, w2) \<Longrightarrow>
   analyze M sd tm ltm sf lm sp w =
     (Inl e, \<lparr>calls = [Kernel_save_distributions, Kernel_compute_distributions],
              world = w2\<rparr>)"
  by (simp add: analyze_cases)

theorem analyze_aborts_on_solve_failure_witness:
  "analyze failing_miles ''pi_q'' ''P'' ''tau'' ''flux'' ''m'' ''pi'' example_world =
     (Inl SolverError,
      \<lparr>calls = [Kernel_save_distributions, Kernel_compute_distributions],
       world = write_file ''distributions'' ''empirical'' example_world\<rparr>)"
  by (rule analyze_aborts_on_solve_failure [OF failing_kernel_save failing_compute])

subsection \<open>The persistence calls\<close>

text \<open>
  Claim C5, as stated: in every execution \<open>matrices.save\<close> is invoked exactly once.
  It fails: an exception of an earlier call ends the execution before line 55. In the
  run of the package whose solve raises \<open>SolverError\<close>, \<open>matrices.save\<close> is not
  invoked, and nothing is written to the transition-matrix path.
\<close>

theorem analyze_matrices_save_counterexample:
  "fst (analyze failing_miles ''pi_q'' ''P'' ''tau'' ''flux'' ''m'' ''pi'' example_world)
     = Inl SolverError \<and>
   filter is_matrices_save
     (calls (snd (analyze failing_miles ''pi_q'' ''P'' ''tau'' ''flux'' ''m'' ''pi''
        example_world))) = [] \<and>
   filesystem (world (snd (analyze failing_miles ''pi_q'' ''P'' ''tau'' ''flux'' ''m''
       ''pi'' example_world))) ''P'' = None"
proof -
  have "filesystem (write_file ''distributions'' ''empirical'' example_world) ''P'' = None"
    by (simp add: write_file_def example_world_def)
  then show ?thesis by (simp add: failing_run)
qed

text \<open>
  Claim C5, amended. In every execution in which the three earlier calls return,
  \<open>matrices.save\<close> is applied exactly once, as the fourth and last call, to the world
  \<open>save_distributions\<close> left, with the five destination paths in the positional
  order transition matrix, lag-time matrix, stationary flux, local MFPTs, stationary
  probability; whether it returns or raises, the execution ends with the world it
  leaves. In an execution in which one of the three earlier calls raises,
  \<open>matrices.save\<close> is not invoked: the calls are those made up to the exception.
\<close>

theorem analyze_matrices_save_once:
  "(kernel_save_distributions M w = (Inr u1, w1) \<longrightarrow>
    kernel_compute_distributions M w1 = (Inr (d, q), w2) \<longrightarrow>
    save_distributions M d sd w2 = (Inr u3, w3) \<longrightarrow>
      analyze M sd tm ltm sf lm sp w =
        (case kernel_matrices_save M tm ltm sf lm sp w3 of
           (Inl e, w4) \<Rightarrow>
             (Inl e, \<lparr>calls = [Kernel_save_distributions, Kernel_compute_distributions,
                               Save_distributions d sd, Matrices_save tm ltm sf lm sp],
                      world = w4\<rparr>)
         | (Inr u4, w4) \<Rightarrow>
             (Inr (mfpt (matrices (kernel w4))),
              \<lparr>calls = [Kernel_save_distributions, Kernel_compute_distributions,
                        Save_distributions d sd, Matrices_save tm ltm sf lm sp],
               world = w4\<rparr>))) \<and>
   (kernel_save_distributions M w = (Inl e, w1) \<longrightarrow>
      snd (analyze M sd tm ltm sf lm sp w) =
        \<lparr>calls = [Kernel_save_distributions], world = w1\<rparr>) \<and>
   (kernel_save_distributions M w = (Inr u1, w1) \<longrightarrow>
    kernel_compute_distributions M w1 = (Inl e, w2) \<longrightarrow>
      snd (analyze M sd tm ltm sf lm sp w) =
        \<lparr>calls = [Kernel_save_distributions, Kernel_compute_distributions],
         world = w2\<rparr>) \<and>
   (kernel_save_distributions M w = (Inr u1, w1) \<longrightarrow>
    kernel_compute_distributions M w1 = (Inr (d, q), w2) \<longrightarrow>
    save_distributions M d sd w2 = (Inl e, w3) \<longrightarrow>
      snd (analyze M sd tm ltm sf lm sp w) =
        \<lparr>calls = [Kernel_save_distributions, Kernel_compute_distributions,
                  Save_distributions d sd], world = w3\<rparr>)"
  by (simp add: analyze_cases split: prod.splits sum.splits)

theorem analyze_matrices_save_once_witness:
  "analyze example_miles ''pi_q'' ''P'' ''tau'' ''flux'' ''m'' ''pi'' example_world =
     (Inr 5,
      \<lparr>calls = [Kernel_save_distributions, Kernel_compute_distributions,
                Save_distributions [1/3, 1/3, 1/3] ''pi_q'',
                Matrices_save ''P'' ''tau'' ''flux'' ''m'' ''pi''],
       world = write_file ''pi'' ''pi'' (write_file ''m'' ''m'' (write_file ''flux'' ''flux''
                 (write_file ''tau'' ''tau'' (write_file ''P'' ''P''
                   (write_file ''pi_q'' ''distributions''
                     (write_file ''distributions'' ''empirical'' example_world))))))\<rparr>) \<and>
   snd (analyze fail_first_miles ''pi_q'' ''P'' ''tau'' ''flux'' ''m'' ''pi'' example_world) =
     \<lparr>calls = [Kernel_save_distributions], world = example_world\<rparr> \<and>
   snd (analyze failing_miles ''pi_q'' ''P'' ''tau'' ''flux'' ''m'' ''pi'' example_world) =
     \<lparr>calls = [Kernel_save_distributions, Kernel_compute_distributions],
      world = write_file ''distributions'' ''empirical'' example_world\<rparr> \<and>
   snd (analyze fail_save_miles ''pi_q'' ''P'' ''tau'' ''flux'' ''m'' ''pi'' example_world) =
     \<lparr>calls = [Kernel_save_distributions, Kernel_compute_distributions,
               Save_distributions [1/3, 1/3, 1/3] ''pi_q''],
      world = write_file ''distributions'' ''empirical'' example_world\<rparr>"
proof (intro conjI)
  let ?w1 = "write_file ''distributions'' ''empirical'' example_world"
  let ?w3 = "write_file ''pi_q'' ''distributions'' ?w1"
  show "analyze example_miles ''pi_q'' ''P'' ''tau'' ''flux'' ''m'' ''pi'' example_world =
     (Inr 5,
      \<lparr>calls = [Kernel_save_distributions, Kernel_compute_distributions,
                Save_distributions [1/3, 1/3, 1/3] ''pi_q'',
                Matrices_save ''P'' ''tau'' ''flux'' ''m'' ''pi''],
       world = write_file ''pi'' ''pi'' (write_file ''m'' ''m'' (write_file ''flux'' ''flux''
                 (write_file ''tau'' ''tau'' (write_file ''P'' ''P'' ?w3))))\<rparr>)"
    using analyze_matrices_save_once [where M = example_miles and w = example_world
        and ?u1.0 = "()" and ?w1.0 = ?w1 and d = "[1/3, 1/3, 1/3]" and q = "[2, 3, 0]"
        and ?w2.0 = ?w1 and sd = "''pi_q''" and ?u3.0 = "()" and ?w3.0 = ?w3
        and tm = "''P''" and ltm = "''tau''" and sf = "''flux''" and lm = "''m''"
        and sp = "''pi''"]
      example_kernel_save example_compute [of ?w1]
      example_save [of "[1/3, 1/3, 1/3]" "''pi_q''" ?w1]
    by (simp add: example_matrices write_file_def example_world_def example_kernel_def)
  show "snd (analyze fail_first_miles ''pi_q'' ''P'' ''tau'' ''flux'' ''m'' ''pi''
          example_world) = \<lparr>calls = [Kernel_save_distributions], world = example_world\<rparr>"
    using analyze_matrices_save_once [where M = fail_first_miles and w = example_world
        and e = DataError and ?w1.0 = example_world]
      fail_first_kernel_save [of example_world]
    by blast
  show "snd (analyze failing_miles ''pi_q'' ''P'' ''tau'' ''flux'' ''m'' ''pi''
          example_world) =
     \<lparr>calls = [Kernel_save_distributions, Kernel_compute_distributions], world = ?w1\<rparr>"
    using analyze_matrices_save_once [where M = failing_miles and w = example_world
        and ?u1.0 = "()" and ?w1.0 = ?w1 and e = SolverError and ?w2.0 = ?w1]
      failing_kernel_save failing_compute [of ?w1]
    by blast
  show "snd (analyze fail_save_miles ''pi_q'' ''P'' ''tau'' ''flux'' ''m'' ''pi''
          example_world) =
     \<lparr>calls = [Kernel_save_distributions, Kernel_compute_distributions,
               Save_distributions [1/3, 1/3, 1/3] ''pi_q''], world = ?w1\<rparr>"
    using analyze_matrices_save_once [where M = fail_save_miles and w = example_world
        and ?u1.0 = "()" and ?w1.0 = ?w1 and d = "[1/3, 1/3, 1/3]" and q = "[2, 3, 0]"
        and ?w2.0 = ?w1 and sd = "''pi_q''" and e = PersistenceError and ?w3.0 = ?w1]
      fail_save_kernel_save fail_save_compute [of ?w1]
      fail_save_save [of "[1/3, 1/3, 1/3]" "''pi_q''" ?w1]
    by blast
qed



subsection \<open>The kernel and the paths\<close>

text \<open>
  Claim C7, as stated: the kernel and every field reachable from it are identical
  before and after the call. It fails for a package whose solve stores its result in
  the kernel, the field \<open>kernel.matrices.mfpt\<close> that line 59 reads after the solve:
  with a solve that sets this field to 7 in a kernel that held 5, \<open>analyze\<close> returns
  7 and leaves a kernel that differs from the one it received.
\<close>

theorem analyze_kernel_counterexample:
  "fst (analyze storing_miles ''pi_q'' ''P'' ''tau'' ''flux'' ''m'' ''pi'' example_world)
     = Inr 7 \<and>
   mfpt (matrices (kernel example_world)) = 5 \<and>
   kernel (world (snd (analyze storing_miles ''pi_q'' ''P'' ''tau'' ''flux'' ''m'' ''pi''
       example_world))) \<noteq> kernel example_world"
proof -
  have "(\<lparr>matrices = \<lparr>mfpt = 7\<rparr>\<rparr> :: (real, unit, unit) TransitionKernel_scheme)
          \<noteq> kernel example_world"
    by (simp add: example_world_def example_kernel_def)
  moreover have "mfpt (matrices (kernel example_world)) = 5"
    by (simp add: example_world_def example_kernel_def)
  ultimately show ?thesis by (simp add: storing_run write_file_def)
qed

text \<open>
  Claim C7, amended. \<open>analyze\<close> assigns nothing itself: the kernel it leaves is the
  kernel the last callee it applied left, in executions that return and in executions
  that abort. The solve runs exactly once in every execution in which the kernel's
  \<open>save_distributions()\<close> returns, and not at all when that first call raises.
\<close>

theorem analyze_kernel_unchanged:
  "(kernel_save_distributions M w = (Inl e, w1) \<longrightarrow>
      kernel (world (snd (analyze M sd tm ltm sf lm sp w))) = kernel w1 \<and>
      filter is_solve (calls (snd (analyze M sd tm ltm sf lm sp w))) = []) \<and>
   (kernel_save_distributions M w = (Inr u1, w1) \<longrightarrow>
    kernel_compute_distributions M w1 = (Inl e, w2) \<longrightarrow>
      kernel (world (snd (analyze M sd tm ltm sf lm sp w))) = kernel w2 \<and>
      filter is_solve (calls (snd (analyze M sd tm ltm sf lm sp w)))
        = [Kernel_compute_distributions]) \<and>
   (kernel_save_distributions M w = (Inr u1, w1) \<longrightarrow>
    kernel_compute_distributions M w1 = (Inr (d, q), w2) \<longrightarrow>
    save_distributions M d sd w2 = (Inl e, w3) \<longrightarrow>
      kernel (world (snd (analyze M sd tm ltm sf lm sp w))) = kernel w3 \<and>
      filter is_solve (calls (snd (analyze M sd tm ltm sf lm sp w)))
        = [Kernel_compute_distributions]) \<and>
   (kernel_save_distributions M w = (Inr u1, w1) \<longrightarrow>
    kernel_compute_distributions M w1 = (Inr (d, q), w2) \<longrightarrow>
    save_distributions M d sd w2 = (Inr u3, w3) \<longrightarrow>
      kernel (world (snd (analyze M sd tm ltm sf lm sp w))) =
        kernel (snd (kernel_matrices_save M tm ltm sf lm sp w3)) \<and>
      filter is_solve (calls (snd (analyze M sd tm ltm sf lm sp w)))
        = [Kernel_compute_distributions])"
  by (simp add: analyze_cases split: prod.splits sum.splits)

theorem analyze_kernel_unchanged_witness:
  "kernel (world (snd (analyze example_miles ''pi_q'' ''P'' ''tau'' ''flux'' ''m'' ''pi''
       example_world))) = kernel example_world \<and>
   kernel (world (snd (analyze storing_miles ''pi_q'' ''P'' ''tau'' ''flux'' ''m'' ''pi''
       example_world))) = \<lparr>matrices = \<lparr>mfpt = 7\<rparr>\<rparr> \<and>
   kernel (world (snd (analyze fail_first_miles ''pi_q'' ''P'' ''tau'' ''flux'' ''m''
       ''pi'' example_world))) = kernel example_world \<and>
   kernel (world (snd (analyze failing_miles ''pi_q'' ''P'' ''tau'' ''flux'' ''m''
       ''pi'' example_world))) = kernel example_world \<and>
   kernel (world (snd (analyze fail_save_miles ''pi_q'' ''P'' ''tau'' ''flux'' ''m''
       ''pi'' example_world))) = kernel example_world"
proof (intro conjI)
  let ?w1 = "write_file ''distributions'' ''empirical'' example_world"
  let ?w3 = "write_file ''pi_q'' ''distributions'' ?w1"
  let ?v2 = "?w1\<lparr>kernel := (kernel ?w1)\<lparr>matrices := \<lparr>mfpt = 7\<rparr>\<rparr>\<rparr>"
  let ?v3 = "write_file ''pi_q'' ''distributions'' ?v2"
  have k1: "kernel ?w1 = kernel example_world" by (simp add: write_file_def)
  show "kernel (world (snd (analyze example_miles ''pi_q'' ''P'' ''tau'' ''flux'' ''m''
       ''pi'' example_world))) = kernel example_world"
    using analyze_kernel_unchanged [where M = example_miles and w = example_world
        and ?u1.0 = "()" and ?w1.0 = ?w1 and d = "[1/3, 1/3, 1/3]" and q = "[2, 3, 0]"
        and ?w2.0 = ?w1 and sd = "''pi_q''" and ?u3.0 = "()" and ?w3.0 = ?w3
        and tm = "''P''" and ltm = "''tau''" and sf = "''flux''" and lm = "''m''"
        and sp = "''pi''"]
      example_kernel_save example_compute [of ?w1]
      example_save [of "[1/3, 1/3, 1/3]" "''pi_q''" ?w1]
    by (simp add: example_matrices write_file_def)
  show "kernel (world (snd (analyze storing_miles ''pi_q'' ''P'' ''tau'' ''flux'' ''m''
       ''pi'' example_world))) = \<lparr>matrices = \<lparr>mfpt = 7\<rparr>\<rparr>"
    using analyze_kernel_unchanged [where M = storing_miles and w = example_world
        and ?u1.0 = "()" and ?w1.0 = ?w1 and d = "[1/3, 1/3, 1/3]" and q = "[2, 3, 0]"
        and ?w2.0 = ?v2 and sd = "''pi_q''" and ?u3.0 = "()" and ?w3.0 = ?v3
        and tm = "''P''" and ltm = "''tau''" and sf = "''flux''" and lm = "''m''"
        and sp = "''pi''"]
      storing_kernel_save storing_compute [of ?w1]
      storing_save [of "[1/3, 1/3, 1/3]" "''pi_q''" ?v2]
    by (simp add: storing_matrices write_file_def example_world_def example_kernel_def)
  show "kernel (world (snd (analyze fail_first_miles ''pi_q'' ''P'' ''tau'' ''flux'' ''m''
       ''pi'' example_world))) = kernel example_world"
    using analyze_kernel_unchanged [where M = fail_first_miles and w = example_world
        and e = DataError and ?w1.0 = example_world]
      fail_first_kernel_save [of example_world]
    by blast
  show "kernel (world (snd (analyze failing_miles ''pi_q'' ''P'' ''tau'' ''flux'' ''m''
       ''pi'' example_world))) = kernel example_world"
    using analyze_kernel_unchanged [where M = failing_miles and w = example_world
        and ?u1.0 = "()" and ?w1.0 = ?w1 and e = SolverError and ?w2.0 = ?w1]
      failing_kernel_save failing_compute [of ?w1] k1
    by metis
  show "kernel (world (snd (analyze fail_save_miles ''pi_q'' ''P'' ''tau'' ''flux'' ''m''
       ''pi'' example_world))) = kernel example_world"
    using analyze_kernel_unchanged [where M = fail_save_miles and w = example_world
        and ?u1.0 = "()" and ?w1.0 = ?w1 and d = "[1/3, 1/3, 1/3]" and q = "[2, 3, 0]"
        and ?w2.0 = ?w1 and sd = "''pi_q''" and e = PersistenceError and ?w3.0 = ?w1]
      fail_save_kernel_save fail_save_compute [of ?w1]
      fail_save_save [of "[1/3, 1/3, 1/3]" "''pi_q''" ?w1] k1
    by metis
qed

text \<open>
  Claim C10. The six file names never influence the value \<open>analyze\<close> returns: the
  return expression names no path, and the paths reach the two save callees only.
  When those two leave the kernel object alone, two runs from the same world that
  both return, with any two choices of the six paths, return the same value. When
  none of the four callees changes the kernel object, the same holds for two runs on
  the same kernel from worlds that differ in their file systems.
\<close>

theorem analyze_result_independent_of_paths:
  "(saves_keep_kernel M \<longrightarrow>
      fst (analyze M sd tm ltm sf lm sp w) = Inr r \<longrightarrow>
      fst (analyze M sd' tm' ltm' sf' lm' sp' w) = Inr r' \<longrightarrow> r = r') \<and>
   (kernel_immutable M \<longrightarrow> kernel w' = kernel w \<longrightarrow>
      fst (analyze M sd tm ltm sf lm sp w) = Inr r \<longrightarrow>
      fst (analyze M sd' tm' ltm' sf' lm' sp' w') = Inr r' \<longrightarrow> r = r')"
proof (intro conjI impI)
  assume keep: "saves_keep_kernel M"
    and run: "fst (analyze M sd tm ltm sf lm sp w) = Inr r"
    and run': "fst (analyze M sd' tm' ltm' sf' lm' sp' w) = Inr r'"
  have final: "fst (analyze M a b c x y z w) = Inr v \<Longrightarrow>
      v = mfpt (matrices (kernel (snd (kernel_compute_distributions M
            (snd (kernel_save_distributions M w))))))" for a b c x y z v
    using keep unfolding saves_keep_kernel_def
    by (auto simp add: analyze_cases split: prod.splits sum.splits
        dest!: arg_cong [where f = snd])
  from final [OF run] final [OF run'] show "r = r'" by simp
next
  assume imm: "kernel_immutable M" and same: "kernel w' = kernel w"
    and run: "fst (analyze M sd tm ltm sf lm sp w) = Inr r"
    and run': "fst (analyze M sd' tm' ltm' sf' lm' sp' w') = Inr r'"
  from analyze_result_read [OF run] kernel_after_analyze [OF imm]
  have "r = mfpt (matrices (kernel w))" by simp
  moreover from analyze_result_read [OF run'] kernel_after_analyze [OF imm]
  have "r' = mfpt (matrices (kernel w'))" by simp
  ultimately show "r = r'" using same by simp
qed

theorem analyze_result_independent_of_paths_witness:
  "saves_keep_kernel example_miles \<and> kernel_immutable example_miles \<and>
   fst (analyze example_miles ''pi_q'' ''P'' ''tau'' ''flux'' ''m'' ''pi'' example_world)
     = Inr 5 \<and>
   fst (analyze example_miles ''a'' ''b'' ''c'' ''d'' ''e'' ''f'' example_world) = Inr 5 \<and>
   fst (analyze example_miles ''a'' ''b'' ''c'' ''d'' ''e'' ''f''
          (write_file ''P'' ''old'' example_world)) = Inr 5"
proof -
  have k: "kernel (write_file ''P'' ''old'' example_world) = kernel example_world"
    by (simp add: write_file_def)
  have r: "fst (analyze example_miles ''pi_q'' ''P'' ''tau'' ''flux'' ''m'' ''pi''
             example_world) = Inr 5"
    by (simp add: example_returns example_world_def example_kernel_def)
  obtain v where r1: "fst (analyze example_miles ''a'' ''b'' ''c'' ''d'' ''e'' ''f''
             example_world) = Inr v"
    by (simp add: example_returns)
  obtain v' where r2: "fst (analyze example_miles ''a'' ''b'' ''c'' ''d'' ''e'' ''f''
             (write_file ''P'' ''old'' example_world)) = Inr v'"
    by (simp add: example_returns)
  note ind = analyze_result_independent_of_paths
    [of example_miles "''pi_q''" "''P''" "''tau''" "''flux''" "''m''" "''pi''" example_world 5]
  from ind [of "''a''" "''b''" "''c''" "''d''" "''e''" "''f''" v]
    example_saves_keep_kernel r r1
  have "v = 5" by blast
  moreover from ind [of "''a''" "''b''" "''c''" "''d''" "''e''" "''f''" v'
      "write_file ''P'' ''old'' example_world"]
    example_miles_immutable k r r2
  have "v' = 5" by blast
  ultimately show ?thesis
    using r r1 r2 example_saves_keep_kernel example_miles_immutable by simp
qed

section \<open>Properties of the MFPT engine of the specification\<close>

subsection \<open>Paths\<close>

lemma reaches_product: "i \<in> product \<Longrightarrow> reaches P product i"
  unfolding reaches_def by blast

lemma reaches_step:
  "(i, j) \<in> steps P product \<Longrightarrow> reaches P product j \<Longrightarrow> reaches P product i"
  unfolding reaches_def by (meson converse_rtrancl_into_rtrancl)

lemma certain_reaches: "certain P product i \<Longrightarrow> reaches P product i"
  by (simp add: certain_def)

lemma certain_step:
  assumes "certain P product i" and "(i, j) \<in> steps P product"
  shows "certain P product j"
  unfolding certain_def
proof (intro conjI allI impI)
  from assms show "reaches P product j" unfolding certain_def by blast
  fix x assume "(j, x) \<in> (steps P product)\<^sup>*"
  with assms(2) have "(i, x) \<in> (steps P product)\<^sup>*"
    by (rule converse_rtrancl_into_rtrancl)
  with assms(1) show "reaches P product x" unfolding certain_def by blast
qed

lemma steps_range: "(i, j) \<in> (steps P product)\<^sup>* \<Longrightarrow> j = i \<or> j < length P"
  by (induction rule: rtrancl_induct) (auto simp: steps_def)

lemma certain_if_all_reach:
  assumes "\<And>j. j < length P \<Longrightarrow> reaches P product j" and "i < length P"
  shows "certain P product i"
  unfolding certain_def using assms steps_range by blast

lemma successor_certain:
  assumes "certain P product i" "i < length P" "i \<notin> product" "j < length P" "0 < P ! i ! j"
  shows "certain P product j"
  by (rule certain_step [OF assms(1)]) (use assms in \<open>simp add: steps_def\<close>)

text \<open>
  A milestone with no path to the product set has the marker, not a number
  (sections 4.3 and 8).
\<close>

lemma unreachable_marker:
  assumes "is_local_mfpts P \<tau> product m" and "i < length P" and "\<not> reaches P product i"
  shows "m ! i = None"
proof -
  from assms(3) have "i \<notin> product" "\<not> certain P product i"
    by (auto simp: reaches_product certain_def)
  with assms(1,2) show ?thesis by (simp add: is_local_mfpts_def)
qed

subsection \<open>A monotone iteration\<close>


subsection \<open>A bound for the iteration\<close>


subsection \<open>Linear systems with a way out\<close>



subsection \<open>The recursion as a linear system\<close>

lemma inner_row:
  assumes v: "valid_kernel P product" and i: "i \<in> inner P product"
  shows "\<And>j. j < length P \<Longrightarrow> 0 \<le> P ! i ! j" and "(\<Sum>j<length P. P ! i ! j) = 1"
  using v i by (auto simp: valid_kernel_def inner_def)

lemma inner_successor:
  assumes i: "i \<in> inner P product" and j: "j < length P" "0 < P ! i ! j"
  shows "j \<in> product \<or> j \<in> inner P product"
proof -
  from i have "certain P product i" "i < length P" "i \<notin> product" by (auto simp: inner_def)
  from successor_certain [OF this j] j(1) show ?thesis by (auto simp: inner_def)
qed


lemma first_step_numeric:
  assumes v: "valid_kernel P product" and s: "is_local_mfpts P \<tau> product m"
    and i: "i \<in> inner P product"
  shows "first_step P \<tau> m i =
     mean_lag P \<tau> i + (\<Sum>j<length P. P ! i ! j * numeric P product m j)"
proof -
  have "(if P ! i ! j = 0 then 0 else P ! i ! j * (\<tau> ! i ! j + the (m ! j))) =
      P ! i ! j * \<tau> ! i ! j + P ! i ! j * numeric P product m j"
    if j: "j < length P" for j
  proof (cases "P ! i ! j = 0")
    case True
    then show ?thesis by simp
  next
    case False
    with inner_row(1) [OF v i j] have "0 < P ! i ! j" by simp
    from inner_successor [OF i j this] have "the (m ! j) = numeric P product m j"
    proof
      assume "j \<in> product"
      with s j show ?thesis by (simp add: is_local_mfpts_def numeric_def inner_def)
    next
      assume "j \<in> inner P product"
      then show ?thesis by (simp add: numeric_def)
    qed
    with False show ?thesis by (simp add: distrib_left)
  qed
  then show ?thesis by (simp add: first_step_def mean_lag_def sum.distrib)
qed

lemma numeric_equation:
  assumes v: "valid_kernel P product" and s: "is_local_mfpts P \<tau> product m"
    and i: "i \<in> inner P product"
  shows "m ! i = Some (numeric P product m i)"
    and "numeric P product m i =
     mean_lag P \<tau> i + (\<Sum>j<length P. P ! i ! j * numeric P product m j)"
proof -
  from s i have mi: "m ! i = Some (first_step P \<tau> m i)"
    by (simp add: is_local_mfpts_def inner_def)
  with i show "m ! i = Some (numeric P product m i)" by (simp add: numeric_def)
  from mi i first_step_numeric [OF v s i]
  show "numeric P product m i =
     mean_lag P \<tau> i + (\<Sum>j<length P. P ! i ! j * numeric P product m j)"
    by (simp add: numeric_def)
qed

lemma local_mfpts_entries:
  assumes v: "valid_kernel P product" and s: "is_local_mfpts P \<tau> product m"
    and i: "i < length P"
  shows "m ! i = (if i \<in> product then Some 0
                  else if i \<in> inner P product then Some (numeric P product m i) else None)"
proof (cases "i \<in> inner P product")
  case True
  with numeric_equation(1) [OF v s True] show ?thesis by (simp add: inner_def)
next
  case False
  with s i show ?thesis by (auto simp: is_local_mfpts_def inner_def)
qed


subsection \<open>Uniqueness\<close>

lemma local_mfpts_unique:
  assumes v: "valid_kernel P product"
    and s1: "is_local_mfpts P \<tau> product m1" and s2: "is_local_mfpts P \<tau> product m2"
  shows "m1 = m2"
proof (rule ccontr)
  assume diff: "m1 \<noteq> m2"
  let ?S = "inner P product"
  define n where "n = length P"
  define d where "d = (\<lambda>i. numeric P product m1 i - numeric P product m2 i)"
  from s1 s2 have len: "length m1 = n" "length m2 = n"
    by (simp_all add: is_local_mfpts_def n_def)
  with diff obtain i0 where i0: "i0 < n" "m1 ! i0 \<noteq> m2 ! i0"
    by (auto simp: list_eq_iff_nth_eq)
  from i0 local_mfpts_entries [OF v s1, of i0] local_mfpts_entries [OF v s2, of i0]
  have i0S: "i0 \<in> ?S" and "d i0 \<noteq> 0"
    by (auto simp: n_def d_def split: if_splits)
  have finS: "finite ?S" by (simp add: inner_def)
  have d_off: "d i = 0" if "i \<notin> ?S" for i
    using that by (simp add: d_def numeric_def)
  have d_step: "d i = (\<Sum>j<n. P ! i ! j * d j)" if "i \<in> ?S" for i
    using numeric_equation(2) [OF v s1 that] numeric_equation(2) [OF v s2 that]
    by (simp add: d_def n_def right_diff_distrib sum_subtractf)
  define M where "M = Max ((\<lambda>i. \<bar>d i\<bar>) ` ?S)"
  have M_ge: "\<bar>d i\<bar> \<le> M" for i
  proof (cases "i \<in> ?S")
    case True
    then show ?thesis unfolding M_def using finS by (intro Max_ge) auto
  next
    case False
    have "\<bar>d i0\<bar> \<le> M" unfolding M_def using finS i0S by (intro Max_ge) auto
    with False show ?thesis by (simp add: d_off)
  qed
  from M_ge [of i0] \<open>d i0 \<noteq> 0\<close> have M_pos: "0 < M" by simp
  define A where "A = {i \<in> ?S. \<bar>d i\<bar> = M}"
  have "M \<in> (\<lambda>i. \<bar>d i\<bar>) ` ?S"
    unfolding M_def using finS i0S by (intro Max_in) auto
  then obtain a where a: "a \<in> A" by (auto simp: A_def)
  have closed: "j \<in> A" if i: "i \<in> A" and j: "j < n" "0 < P ! i ! j" for i j
  proof -
    from i have iS: "i \<in> ?S" and i_M: "\<bar>d i\<bar> = M" by (auto simp: A_def)
    note nonneg = inner_row(1) [OF v iS, folded n_def]
    note row = inner_row(2) [OF v iS, folded n_def]
    have "M = \<bar>\<Sum>l<n. P ! i ! l * d l\<bar>"
      using d_step [OF iS] i_M by simp
    also have "\<dots> \<le> (\<Sum>l<n. \<bar>P ! i ! l * d l\<bar>)" by (rule sum_abs)
    also have "\<dots> = (\<Sum>l<n. P ! i ! l * \<bar>d l\<bar>)"
      by (rule sum.cong) (simp_all add: abs_mult nonneg)
    finally have "M \<le> (\<Sum>l<n. P ! i ! l * \<bar>d l\<bar>)" .
    moreover have "M = (\<Sum>l<n. P ! i ! l * M)"
      using row by (simp add: sum_distrib_right [symmetric])
    ultimately have "(\<Sum>l<n. P ! i ! l * (M - \<bar>d l\<bar>)) \<le> 0"
      by (simp add: right_diff_distrib sum_subtractf)
    moreover have "0 \<le> (\<Sum>l<n. P ! i ! l * (M - \<bar>d l\<bar>))"
      by (rule sum_nonneg) (simp add: nonneg M_ge)
    ultimately have "(\<Sum>l<n. P ! i ! l * (M - \<bar>d l\<bar>)) = 0" by simp
    then have "P ! i ! j * (M - \<bar>d j\<bar>) = 0"
      using j(1) by (subst (asm) sum_nonneg_eq_0_iff) (auto simp: nonneg M_ge)
    with j(2) have dj: "\<bar>d j\<bar> = M" by simp
    have "j \<in> ?S"
    proof (rule ccontr)
      assume "j \<notin> ?S"
      from d_off [OF this] dj M_pos show False by simp
    qed
    with dj show ?thesis by (simp add: A_def)
  qed
  have stay: "x \<in> A" if "(a, x) \<in> (steps P product)\<^sup>*" for x
    using that
  proof (induction rule: rtrancl_induct)
    case base
    show ?case by (rule a)
  next
    case (step y z)
    from step.hyps(2) have "z < n" "0 < P ! y ! z" by (auto simp: steps_def n_def)
    with step.IH show ?case by (rule closed)
  qed
  from a have "reaches P product a" by (auto simp: A_def inner_def certain_def)
  then obtain q where "q \<in> product" "(a, q) \<in> (steps P product)\<^sup>*"
    unfolding reaches_def by blast
  with stay [of q] show False by (auto simp: A_def inner_def)
qed

subsection \<open>Positivity\<close>




subsection \<open>Scaling\<close>





subsection \<open>The example kernels\<close>

lemma global_mfpt_single:
  "global_mfpt m {a} \<pi> =
     (if m ! a = None \<or> \<pi> ! a = 0 then None else Some (the (m ! a)))"
proof -
  have "{i \<in> {a}. m ! i \<noteq> None} = (if m ! a \<noteq> None then {a} else {})" by auto
  then show ?thesis unfolding global_mfpt_def Let_def by simp
qed


lemma chain_steps: "(0, 1) \<in> steps chain_P {2}" "(1, 2) \<in> steps chain_P {2}"
  by (simp_all add: steps_def chain_P_def)

lemma chain_reaches: "j < 3 \<Longrightarrow> reaches chain_P {2} j"
proof -
  have r2: "reaches chain_P {2} 2" by (rule reaches_product) simp
  have r1: "reaches chain_P {2} 1" by (rule reaches_step [OF chain_steps(2) r2])
  have r0: "reaches chain_P {2} 0" by (rule reaches_step [OF chain_steps(1) r1])
  assume "j < 3"
  then have "j = 0 \<or> j = 1 \<or> j = 2" by auto
  with r0 r1 r2 show ?thesis by auto
qed

lemma chain_certain: "i < 3 \<Longrightarrow> certain chain_P {2} i"
proof (rule certain_if_all_reach)
  fix j assume "j < length chain_P"
  then have "j < 3" by (simp add: chain_P_def)
  then show "reaches chain_P {2} j" by (rule chain_reaches)
qed (simp add: chain_P_def)

lemma chain_valid: "valid_kernel chain_P {2}"
  by (simp add: valid_kernel_def chain_P_def All_less_Suc)



lemma chain_local: "is_local_mfpts chain_P chain_tau {2} [Some 5, Some 3, Some 0]"
  using chain_certain [of 0] chain_certain [of 1]
  by (simp add: is_local_mfpts_def first_step_def chain_P_def chain_tau_def All_less_Suc)








subsection \<open>Positivity and scaling of the GlobalMFPT\<close>




subsection \<open>The 3-milestone chain\<close>

text \<open>
  Claim C9. For the 3-milestone chain (milestone 0 the reactant, milestone 2 the
  product, the given \<open>P\<close> and \<open>\<tau>\<close>) the MFPT computation yields the local MFPT
  vector \<open>[5, 3, 0]\<close> and no other; the GlobalMFPT is 5, whatever weight other than 0
  the reactant has; and in every kernel the local MFPT of a product milestone is 0.
\<close>

theorem three_milestone_chain_mfpt:
  "(is_local_mfpts chain_P chain_tau {2} m \<longleftrightarrow> m = [Some 5, Some 3, Some 0]) \<and>
   (is_local_mfpts chain_P chain_tau {2} m \<and> \<pi> ! 0 \<noteq> 0 \<longrightarrow>
      global_mfpt m {0} \<pi> = Some 5) \<and>
   (is_local_mfpts P \<tau> product m' \<and> i < length P \<and> i \<in> product \<longrightarrow> m' ! i = Some 0)"
proof (intro conjI impI)
  show eq: "is_local_mfpts chain_P chain_tau {2} m \<longleftrightarrow> m = [Some 5, Some 3, Some 0]"
    using local_mfpts_unique [OF chain_valid _ chain_local] chain_local by blast
  show "global_mfpt m {0} \<pi> = Some 5"
    if "is_local_mfpts chain_P chain_tau {2} m \<and> \<pi> ! 0 \<noteq> 0"
    using that eq by (simp add: global_mfpt_single)
  show "m' ! i = Some 0" if "is_local_mfpts P \<tau> product m' \<and> i < length P \<and> i \<in> product"
    using that by (simp add: is_local_mfpts_def)
qed

theorem three_milestone_chain_mfpt_witness:
  "is_local_mfpts chain_P chain_tau {2} [Some 5, Some 3, Some 0] \<and>
   global_mfpt [Some 5, Some 3, Some 0] {0} [1, 0, 0] = Some 5 \<and>
   [Some 5, Some 3, Some (0::real)] ! 2 = Some 0"
  using three_milestone_chain_mfpt [where m = "[Some 5, Some 3, Some 0]" and \<pi> = "[1, 0, 0]"
      and P = chain_P and \<tau> = chain_tau and product = "{2}" and m' = "[Some 5, Some 3, Some 0]"
      and i = 2]
  by (simp add: chain_P_def)

end
